theory Spec2Isabelle
  imports Complex_Main "HOL-Library.Word"
begin

unbundle bit_operations_syntax

section \<open>Machine integers and panics\<close>

text \<open>
  The Go sources keep the per-backend counters in \<open>atomic.Int32\<close> cells and the latency
  samples in \<open>int64\<close>; both are words here, so that \<open>+\<close> wraps as it does in Go, and a
  comparison of two counters reads them as two's complement (\<open>sint\<close>).
  Configuration values of Go type \<open>int\<close> that are only compared or converted are \<open>int\<close>;
  the conversion \<open>int32(x)\<close> is \<open>of_int\<close>, which truncates.
  A value of type \<open>float64\<close> is a \<open>real\<close>. Where only a returned value depends on
  it, the arithmetic is the exact one and the rounding of the IEEE operations is left
  out; where a comparison of the source reads a rounded result, the rounding is written
  out (see \<open>HistoricalScore\<close>).
\<close>

type_synonym int32 = "32 word"
type_synonym int64 = "64 word"

datatype panic =
    MakeSliceCapOutOfRange
  | SliceBoundsOutOfRange nat nat
  | IndexOutOfRange int

text \<open>\<open>xs[n:]\<close> on a slice: a run-time panic when \<open>n\<close> is beyond the length.\<close>

definition slice_from :: "'a list \<Rightarrow> nat \<Rightarrow> panic + 'a list" where
  "slice_from xs n =
     (if n > length xs then Inl (SliceBoundsOutOfRange n (length xs)) else Inr (drop n xs))"


text \<open>\<open>Duration.Milliseconds\<close>: a duration is a count of nanoseconds; integer division
  in Go truncates towards zero.\<close>

definition Milliseconds :: "int64 \<Rightarrow> int64" where
  "Milliseconds d =
     (if 0 \<le> sint d then of_int (sint d div 1000000) else of_int (- ((- sint d) div 1000000)))"

section \<open>Backend state\<close>

record Backend =
  Addr :: string
  MaxConnections :: int
  currentConns :: int32
  failCount :: int32
  successCount :: int32
  healthy :: bool
  disabled :: bool
  latencyWindow :: "int64 list"
  windowSize :: int
  lastCheckTime :: int
  players :: "string set"
  trustCoeff :: int32

text \<open>\<open>NewBackend\<close>: \<open>make([]int64, 0, windowSize)\<close> panics on a negative capacity
  (the allocation limit of very large capacities is not modelled).\<close>

definition NewBackend :: "string \<Rightarrow> int \<Rightarrow> int \<Rightarrow> panic + Backend" where
  "NewBackend addr maxConns wsize =
     (if wsize < 0 then Inl MakeSliceCapOutOfRange
      else Inr \<lparr> Addr = addr, MaxConnections = maxConns, currentConns = 0, failCount = 0,
                 successCount = 0, healthy = True, disabled = False, latencyWindow = [],
                 windowSize = wsize, lastCheckTime = 0, players = {}, trustCoeff = 100 \<rparr>)"

definition RecordLatency :: "Backend \<Rightarrow> int64 \<Rightarrow> panic + Backend" where
  "RecordLatency b latency =
     (let ms = Milliseconds latency in
      if int (length (latencyWindow b)) \<ge> windowSize b
      then (case slice_from (latencyWindow b) 1 of
              Inl p \<Rightarrow> Inl p
            | Inr w \<Rightarrow> Inr (b\<lparr>latencyWindow := w @ [ms]\<rparr>))
      else Inr (b\<lparr>latencyWindow := latencyWindow b @ [ms]\<rparr>))"

subsection \<open>Trust coefficient\<close>

definition IncreaseTrust :: "Backend \<Rightarrow> Backend" where
  "IncreaseTrust b =
     (let current = trustCoeff b in
      if current <s 100
      then (let newVal = current + 10;
                newVal' = (if 100 <s newVal then 100 else newVal)
            in b\<lparr>trustCoeff := newVal'\<rparr>)
      else b)"

definition ResetTrust :: "Backend \<Rightarrow> Backend" where
  "ResetTrust b = b\<lparr>trustCoeff := 50\<rparr>"

definition TrustCoeff :: "Backend \<Rightarrow> real" where
  "TrustCoeff b = real_of_int (sint (trustCoeff b)) / 100"

datatype trust_op = OpResetTrust | OpIncreaseTrust

fun apply_trust_op :: "Backend \<Rightarrow> trust_op \<Rightarrow> Backend" where
  "apply_trust_op b OpResetTrust = ResetTrust b"
| "apply_trust_op b OpIncreaseTrust = IncreaseTrust b"

subsection \<open>Availability and the player set\<close>


definition AddPlayer :: "Backend \<Rightarrow> string \<Rightarrow> Backend" where
  "AddPlayer b name =
     b\<lparr>players := insert name (players b), currentConns := currentConns b + 1\<rparr>"

definition RemovePlayer :: "Backend \<Rightarrow> string \<Rightarrow> Backend" where
  "RemovePlayer b name =
     (let exists = (name \<in> players b) in
      if exists then b\<lparr>players := players b - {name}, currentConns := currentConns b - 1\<rparr>
      else b)"

datatype player_op = OpAddPlayer string | OpRemovePlayer string

fun apply_player_op :: "Backend \<Rightarrow> player_op \<Rightarrow> Backend" where
  "apply_player_op b (OpAddPlayer n) = AddPlayer b n"
| "apply_player_op b (OpRemovePlayer n) = RemovePlayer b n"

subsection \<open>Tracked connections\<close>

text \<open>
  A \<open>trackedConn\<close> holds the player's name and a \<open>sync.Once\<close>; \<open>closeOnceDone\<close> is the
  state of that \<open>Once\<close>. The backend it points to is shared, so \<open>Close\<close> takes the backend
  and returns it with the connection. Closing the embedded socket has no effect on the
  backend and is left out.
\<close>

record trackedConn =
  playerName :: string
  closeOnceDone :: bool

definition Close :: "trackedConn \<Rightarrow> Backend \<Rightarrow> trackedConn \<times> Backend" where
  "Close c b =
     (if closeOnceDone c then (c, b)
      else (c\<lparr>closeOnceDone := True\<rparr>, RemovePlayer b (playerName c)))"

definition trust_levels :: "int32 set" where
  "trust_levels = {50, 60, 70, 80, 90, 100}"

subsection \<open>Sliding window statistics\<close>

text \<open>The loops \<open>for _, v := range latencyWindow { sum += v }\<close>, with \<open>sum\<close> an \<open>int64\<close>.\<close>

definition sum_window :: "int64 list \<Rightarrow> int64" where
  "sum_window w = foldl (\<lambda>sum v. sum + v) 0 w"

definition float64 :: "int64 \<Rightarrow> real" where
  "float64 x = real_of_int (sint x)"

definition AvgLatency :: "Backend \<Rightarrow> real" where
  "AvgLatency b =
     (let w = latencyWindow b in
      if length w = 0 then 0
      else float64 (sum_window w) / real (length w))"

definition Jitter :: "Backend \<Rightarrow> real" where
  "Jitter b =
     (let w = latencyWindow b in
      if length w < 2 then 0
      else (let avg = float64 (sum_window w) / real (length w);
                variance = foldl (\<lambda>variance v. variance + (float64 v - avg) * (float64 v - avg)) 0 w
            in sqrt (variance / real (length w))))"

subsection \<open>Health-check counters\<close>

definition RecordSuccess :: "Backend \<Rightarrow> Backend" where
  "RecordSuccess b = b\<lparr>failCount := 0\<rparr>"

definition RecordHealthCheckSuccess :: "Backend \<Rightarrow> Backend" where
  "RecordHealthCheckSuccess b = b\<lparr>failCount := 0, successCount := successCount b + 1\<rparr>"

definition ResetSuccessCount :: "Backend \<Rightarrow> Backend" where
  "ResetSuccessCount b = b\<lparr>successCount := 0\<rparr>"

definition RecordFailure :: "Backend \<Rightarrow> Backend" where
  "RecordFailure b = b\<lparr>failCount := failCount b + 1\<rparr>"

definition RecordHealthCheckFailure :: "Backend \<Rightarrow> Backend" where
  "RecordHealthCheckFailure b = b\<lparr>failCount := failCount b + 1, successCount := 0\<rparr>"

definition SetHealthy :: "Backend \<Rightarrow> bool \<Rightarrow> Backend" where
  "SetHealthy b h = b\<lparr>healthy := h\<rparr>"

definition SetDisabled :: "Backend \<Rightarrow> bool \<Rightarrow> Backend" where
  "SetDisabled b d = b\<lparr>disabled := d\<rparr>"

section \<open>History store\<close>

text \<open>
  The wall clock enters as a value: the Unix time in milliseconds and the local hour and
  minute that \<open>time.Now()\<close> reports. A \<open>BackendHistory\<close> is an array of 96 slots, here a
  function on the indices, with the bounds check of the array access written out.
  The store keeps its entries in a map from addresses; writing them through to the
  database is left out, reads are served from the map alone.
\<close>

record Time =
  unixMilli :: int
  Hour :: nat
  Minute :: nat

record PeriodStats =
  ps_AvgLatency :: real
  ps_AvgJitter :: real
  Samples :: int64
  PeriodIndex :: int
  PeriodLabel :: string

type_synonym BackendHistory = "nat \<Rightarrow> PeriodStats"

record HistoryManager =
  cache :: "string \<rightharpoonup> BackendHistory"

definition emaAlpha :: real where
  "emaAlpha = 0.1"


definition getPeriodIndex :: "Time \<Rightarrow> int" where
  "getPeriodIndex now = int (Hour now) * 4 + int (Minute now div 15)"

text \<open>\<open>%02d\<close> of a number below 100.\<close>

definition two_digits :: "int \<Rightarrow> string" where
  "two_digits n = [char_of (48 + n div 10), char_of (48 + n mod 10)]"

definition periodLabelFromIndex :: "int \<Rightarrow> string" where
  "periodLabelFromIndex period =
     (if period < 0 \<or> period > 95 then ''''
      else (let startMin = period * 15;
                endMin = (startMin + 15) mod (24 * 60);
                sh = startMin div 60; sm = startMin mod 60;
                eh = endMin div 60; em = endMin mod 60
            in two_digits sh @ '':'' @ two_digits sm @ ''-'' @ two_digits eh @ '':'' @ two_digits em))"

definition new_history :: BackendHistory where
  "new_history = (\<lambda>i. \<lparr> ps_AvgLatency = 0, ps_AvgJitter = 0, Samples = 0,
                         PeriodIndex = int i, PeriodLabel = periodLabelFromIndex (int i) \<rparr>)"

definition Record :: "HistoryManager \<Rightarrow> string \<Rightarrow> real \<Rightarrow> real \<Rightarrow> Time \<Rightarrow> panic + HistoryManager" where
  "Record hm addr latency jitter now =
     (let period = getPeriodIndex now;
          history = (case cache hm addr of None \<Rightarrow> new_history | Some h \<Rightarrow> h)
      in if period < 0 \<or> period \<ge> 96 then Inl (IndexOutOfRange period)
         else (let stats = history (nat period);
                   stats1 = (if Samples stats = 0
                             then stats\<lparr>ps_AvgLatency := latency, ps_AvgJitter := jitter\<rparr>
                             else stats\<lparr>ps_AvgLatency :=
                                           emaAlpha * latency + (1 - emaAlpha) * ps_AvgLatency stats,
                                         ps_AvgJitter :=
                                           emaAlpha * jitter + (1 - emaAlpha) * ps_AvgJitter stats\<rparr>);
                   stats2 = stats1\<lparr>Samples := Samples stats1 + 1\<rparr>
               in Inr (hm\<lparr>cache := (cache hm)(addr \<mapsto> history(nat period := stats2))\<rparr>)))"

definition GetPeriodStats :: "HistoryManager \<Rightarrow> string \<Rightarrow> int \<Rightarrow> PeriodStats option" where
  "GetPeriodStats hm addr period =
     (if period < 0 \<or> period > 95 then None
      else (case cache hm addr of None \<Rightarrow> None | Some history \<Rightarrow> Some (history (nat period))))"

definition GetCurrentPeriodStats :: "HistoryManager \<Rightarrow> string \<Rightarrow> Time \<Rightarrow> PeriodStats option" where
  "GetCurrentPeriodStats hm addr now = GetPeriodStats hm addr (getPeriodIndex now)"


text \<open>
  The adjustment as the specification words it, for comparison with \<open>HistoricalScore\<close>:
  with \<open>r = curr / avg\<close>, the latency term is \<open>+8\<close> for \<open>r < 0.70\<close>, \<open>+4\<close> for \<open>r < 0.85\<close>,
  \<open>-8\<close> for \<open>r > 1.50\<close>, \<open>-4\<close> for \<open>r > 1.20\<close>, else 0; the jitter term is \<open>+4\<close> for
  \<open>r < 0.70\<close>, \<open>-4\<close> for \<open>r > 1.50\<close>, else 0.
\<close>

definition spec_latency_term :: "real \<Rightarrow> int" where
  "spec_latency_term r =
     (if r < 0.7 then 8 else if r < 0.85 then 4
      else if r > 1.5 then - 8 else if r > 1.2 then - 4 else 0)"

definition spec_jitter_term :: "real \<Rightarrow> int" where
  "spec_jitter_term r = (if r < 0.7 then 4 else if r > 1.5 then - 4 else 0)"


text \<open>The entry that \<open>Record\<close> updates at the current period: the stored one, or the
  zeroed one of the history it creates for an address seen for the first time.\<close>

definition current_stats :: "HistoryManager \<Rightarrow> string \<Rightarrow> Time \<Rightarrow> PeriodStats" where
  "current_stats hm addr now =
     (case cache hm addr of None \<Rightarrow> new_history (nat (getPeriodIndex now))
      | Some h \<Rightarrow> h (nat (getPeriodIndex now)))"

text \<open>A store for the examples: one backend with an entry at period 37 (09:15 to 09:30)
  holding an average latency of 50 ms, an average jitter of 5 ms and \<open>n\<close> samples.\<close>

definition scenario_time :: Time where
  "scenario_time = \<lparr> unixMilli = 1700000000000, Hour = 9, Minute = 15 \<rparr>"

definition scenario_stats :: "int64 \<Rightarrow> PeriodStats" where
  "scenario_stats n = \<lparr> ps_AvgLatency = 50, ps_AvgJitter = 5, Samples = n,
                         PeriodIndex = 37, PeriodLabel = ''09:15-09:30'' \<rparr>"

definition scenario_history :: "int64 \<Rightarrow> HistoryManager" where
  "scenario_history n =
     \<lparr> cache = [''10.0.0.1:25565'' \<mapsto> new_history(37 := scenario_stats n)] \<rparr>"

text \<open>The statistics as the specification names them, over the samples read as signed
  integers.\<close>

definition arithmetic_mean :: "int list \<Rightarrow> real" where
  "arithmetic_mean xs = real_of_int (sum_list xs) / real (length xs)"

definition population_stddev :: "int list \<Rightarrow> real" where
  "population_stddev xs =
     sqrt ((\<Sum>x\<leftarrow>xs. (real_of_int x - arithmetic_mean xs) * (real_of_int x - arithmetic_mean xs))
           / real (length xs))"

definition samples :: "Backend \<Rightarrow> int list" where
  "samples b = map sint (latencyWindow b)"

text \<open>A healthy, enabled, fully trusted backend with a given load and window, for the
  examples.\<close>

definition scenario_backend :: "string \<Rightarrow> int \<Rightarrow> int32 \<Rightarrow> int64 list \<Rightarrow> Backend" where
  "scenario_backend addr maxConns conns w =
     \<lparr> Addr = addr, MaxConnections = maxConns, currentConns = conns, failCount = 0,
       successCount = 0, healthy = True, disabled = False, latencyWindow = w,
       windowSize = 20, lastCheckTime = 0, players = {}, trustCoeff = 100 \<rparr>"

section \<open>Status probe\<close>

text \<open>
  The network is the environment of a probe: what the clock reads at the three moments
  that matter, whether the dial gives a connection, which \<open>Write\<close> call on the connection
  fails (if any), and the bytes the server sends before the stream ends (a read beyond
  them fails: end of stream or deadline). The bytes of the handshake and of the status
  request do not influence the result and are not modelled. Clock readings and
  durations are in nanoseconds.
\<close>

type_synonym byte = "8 word"

datatype ping_error =
    DialFailed
  | ReadFailed
  | VarIntTooBig
  | InvalidPacketLength int32
  | SendHandshakeFailed
  | SendStatusRequestFailed
  | ReadStatusResponseFailed ping_error
  | UnexpectedPacketID int32
  | InvalidJSONLength int32

record Conn =
  write_fails_at :: "nat option"
  incoming :: "byte list"

record Network =
  clock_start :: int64
  clock_since :: int64
  clock_done :: int64
  dial_result :: "Conn option"

fun readVarInt_loop :: "byte list \<Rightarrow> int32 \<Rightarrow> nat \<Rightarrow> ping_error + (int32 \<times> byte list)" where
  "readVarInt_loop [] result shift = Inl ReadFailed"
| "readVarInt_loop (b # r) result shift =
     (let result' = result OR push_bit shift (ucast (b AND 0x7F)) in
      if b AND 0x80 = 0 then Inr (result', r)
      else (let shift' = shift + 7 in
            if shift' \<ge> 32 then Inl VarIntTooBig
            else readVarInt_loop r result' shift'))"

definition readVarInt :: "byte list \<Rightarrow> ping_error + (int32 \<times> byte list)" where
  "readVarInt r = readVarInt_loop r 0 0"

definition readPacket :: "byte list \<Rightarrow> ping_error + (int32 \<times> byte list \<times> byte list)" where
  "readPacket conn =
     (case readVarInt conn of
        Inl err \<Rightarrow> Inl err
      | Inr (len, rest) \<Rightarrow>
          if len \<le>s 0 \<or> 1024 * 1024 <s len then Inl (InvalidPacketLength len)
          else if length rest < nat (sint len) then Inl ReadFailed
          else Inr (len, take (nat (sint len)) rest, drop (nat (sint len)) rest))"

text \<open>\<open>writePacket\<close> makes two \<open>Write\<close> calls; \<open>k\<close> is the number of calls made before.\<close>

definition writePacket :: "Conn \<Rightarrow> nat \<Rightarrow> bool" where
  "writePacket conn k = (case write_fails_at conn of None \<Rightarrow> True | Some j \<Rightarrow> k + 2 \<le> j)"

definition MCPingConn :: "Conn \<Rightarrow> string \<Rightarrow> int64 \<Rightarrow> ping_error option" where
  "MCPingConn conn addr timeout =
     (if \<not> writePacket conn 0 then Some SendHandshakeFailed
      else if \<not> writePacket conn 2 then Some SendStatusRequestFailed
      else (case readPacket (incoming conn) of
              Inl err \<Rightarrow> Some (ReadStatusResponseFailed err)
            | Inr (_, packetData, _) \<Rightarrow>
                (case readVarInt packetData of
                   Inl err \<Rightarrow> Some (UnexpectedPacketID 0)
                 | Inr (packetID, reader) \<Rightarrow>
                     if packetID \<noteq> 0 then Some (UnexpectedPacketID packetID)
                     else (case readVarInt reader of
                             Inl err \<Rightarrow> Some (InvalidJSONLength 0)
                           | Inr (jsonLen, _) \<Rightarrow>
                               if jsonLen \<le>s 0 then Some (InvalidJSONLength jsonLen)
                               else None))))"

text \<open>
  \<open>Backend.MCPing\<close>: \<open>start := time.Now()\<close> and \<open>latency := time.Since(start)\<close> are its first
  two statements; the dial and the exchange come after, and \<open>latency\<close> is what every
  \<open>return\<close> gives back.
\<close>

definition MCPing :: "Backend \<Rightarrow> int64 \<Rightarrow> Network \<Rightarrow> int64 \<times> ping_error option" where
  "MCPing b timeout net =
     (let start = clock_start net;
          latency = clock_since net - start
      in case dial_result net of
           None \<Rightarrow> (latency, Some DialFailed)
         | Some conn \<Rightarrow>
             (case MCPingConn conn (Addr b) timeout of
                Some err \<Rightarrow> (latency, Some err)
              | None \<Rightarrow> (latency, None)))"

text \<open>The latency the specification describes: from just before the dial to just after
  the JSON length is validated.\<close>

definition spec_probe_latency :: "Network \<Rightarrow> int64" where
  "spec_probe_latency net = clock_done net - clock_start net"

text \<open>A server that answers the status request with the packet \<open>00 02 7B 7D\<close> (packet id 0,
  a JSON string of length 2), 20 ms for the dial and 30 ms for the exchange.\<close>

definition scenario_network :: Network where
  "scenario_network =
     \<lparr> clock_start = 1000, clock_since = 1200, clock_done = 50001000,
       dial_result = Some \<lparr> write_fails_at = None, incoming = [4, 0, 2, 0x7B, 0x7D] \<rparr> \<rparr>"

definition scenario_network_down :: Network where
  "scenario_network_down =
     \<lparr> clock_start = 1000, clock_since = 1200, clock_done = 3000001000, dial_result = None \<rparr>"

section \<open>Health-check loop\<close>

record HealthCheckConfig =
  IntervalSeconds :: int
  WindowSize :: int
  UnhealthyAfterFailures :: int
  HealthyAfterSuccesses :: int
  JitterThreshold :: real
  DialTimeoutSeconds :: int

definition SetLastCheckTime :: "Backend \<Rightarrow> Time \<Rightarrow> Backend" where
  "SetLastCheckTime b t = b\<lparr>lastCheckTime := unixMilli t\<rparr>"

definition probe_timeout :: "HealthCheckConfig \<Rightarrow> int64" where
  "probe_timeout cfg =
     (let timeout = of_int (DialTimeoutSeconds cfg) * 1000000000 in
      if timeout = 0 then 3 * 1000000000 else timeout)"

text \<open>
  What \<open>LoadBalancedServerInfo.Dial\<close> does to the backend the strategy selected, given
  whether the TCP dial succeeded and how long it took: it writes the same failure
  counter as the health-check loop.
\<close>

definition Dial_backend :: "Backend \<Rightarrow> bool \<Rightarrow> int64 \<Rightarrow> string \<Rightarrow> panic + Backend" where
  "Dial_backend backend dialOk latency name =
     (if \<not> dialOk then RecordLatency (RecordFailure backend) latency
      else (case RecordLatency (RecordSuccess backend) latency of
              Inl p \<Rightarrow> Inl p
            | Inr b \<Rightarrow> Inr (AddPlayer b name)))"

text \<open>The store as \<open>Record\<close> leaves it when its array access panics: the history of a new
  address has been inserted by then.\<close>

definition Record_panicked :: "HistoryManager \<Rightarrow> string \<Rightarrow> HistoryManager" where
  "Record_panicked hm addr =
     hm\<lparr>cache := (cache hm)(addr \<mapsto> (case cache hm addr of None \<Rightarrow> new_history | Some h \<Rightarrow> h))\<rparr>"

text \<open>
  The body of the loop of \<open>checkAllBackends\<close> for one backend. A panic does not end the
  process: \<open>healthCheckLoop\<close> recovers and starts again, so the result is the panic, if
  any, together with the state as the body left it.
\<close>

definition checkBackend ::
  "HealthCheckConfig \<Rightarrow> Time \<Rightarrow> Network \<Rightarrow> HistoryManager \<Rightarrow> Backend
     \<Rightarrow> panic option \<times> Backend \<times> HistoryManager" where
  "checkBackend cfg now net hm backend =
     (if disabled backend then (None, backend, hm)
      else
        (case MCPing backend (probe_timeout cfg) net of
           (latency, err) \<Rightarrow>
             (let b1 = SetLastCheckTime backend now in
              case err of
                Some e \<Rightarrow>
                  (let b2 = RecordHealthCheckFailure b1 in
                   if of_int (UnhealthyAfterFailures cfg) \<le>s failCount b2
                   then (if healthy b2 then (None, SetHealthy b2 False, hm) else (None, b2, hm))
                   else (None, b2, hm))
              | None \<Rightarrow>
                  (case RecordLatency b1 latency of
                     Inl p \<Rightarrow> (Some p, b1, hm)
                   | Inr b2 \<Rightarrow>
                       (let jitter = Jitter b2 in
                        case Record hm (Addr b2) (float64 (Milliseconds latency)) jitter now of
                          Inl p \<Rightarrow> (Some p, b2, Record_panicked hm (Addr b2))
                        | Inr hm' \<Rightarrow>
                            (let wasUnhealthy = (\<not> healthy b2);
                                 b3 = RecordHealthCheckSuccess b2
                             in if wasUnhealthy
                                then (if of_int (HealthyAfterSuccesses cfg) \<le>s successCount b3
                                      then (None, ResetSuccessCount (ResetTrust (SetHealthy b3 True)), hm')
                                      else (None, b3, hm'))
                                else (None, IncreaseTrust b3, hm')))))))"

text \<open>One backend over successive ticks of the loop, each tick with its time and
  network; after a panic the next tick runs on the state the panic left.\<close>

fun probes ::
  "HealthCheckConfig \<Rightarrow> (Time \<times> Network) list \<Rightarrow> HistoryManager \<Rightarrow> Backend
     \<Rightarrow> Backend \<times> HistoryManager" where
  "probes cfg [] hm b = (b, hm)"
| "probes cfg (tick # ticks) hm b =
     (case checkBackend cfg (fst tick) (snd tick) hm b of
        (p, b', hm') \<Rightarrow> probes cfg ticks hm' b')"

definition scenario_config :: HealthCheckConfig where
  "scenario_config =
     \<lparr> IntervalSeconds = 5, WindowSize = 20, UnhealthyAfterFailures = 3,
       HealthyAfterSuccesses = 3, JitterThreshold = 0.5, DialTimeoutSeconds = 5 \<rparr>"

section \<open>Selection by health score\<close>





















section \<open>Trust stays on the ten-percent grid\<close>

lemma IncreaseTrust_grid:
  "trustCoeff b \<in> trust_levels \<Longrightarrow> trustCoeff (IncreaseTrust b) \<in> trust_levels"
  by (auto simp: trust_levels_def IncreaseTrust_def Let_def word_sless_alt)

lemma apply_trust_op_grid:
  "trustCoeff b \<in> trust_levels \<Longrightarrow> trustCoeff (apply_trust_op b x) \<in> trust_levels"
proof (cases x)
  case OpResetTrust
  then show ?thesis by (simp add: ResetTrust_def trust_levels_def)
next
  case OpIncreaseTrust
  assume "trustCoeff b \<in> trust_levels"
  with OpIncreaseTrust show ?thesis by (simp add: IncreaseTrust_grid)
qed

lemma foldl_trust_grid:
  "trustCoeff b \<in> trust_levels \<Longrightarrow> trustCoeff (foldl apply_trust_op b ops) \<in> trust_levels"
  by (induction ops arbitrary: b) (simp_all add: apply_trust_op_grid)

lemma IncreaseTrust_step:
  "trustCoeff b \<in> trust_levels \<Longrightarrow>
   sint (trustCoeff (IncreaseTrust b)) = min (sint (trustCoeff b) + 10) 100"
  by (auto simp: trust_levels_def IncreaseTrust_def Let_def word_sless_alt)

text \<open>
  Claim C7. A backend is created with trust 100; after any sequence of \<open>ResetTrust\<close> and
  \<open>IncreaseTrust\<close> calls the stored percentage is one of 50, 60, 70, 80, 90, 100;
  \<open>ResetTrust\<close> stores 50, and \<open>IncreaseTrust\<close> adds 10 and stops at 100.
\<close>

theorem trust_on_grid:
  assumes "NewBackend addr maxConns wsize = Inr b0"
  shows "trustCoeff b0 = 100
       \<and> trustCoeff (foldl apply_trust_op b0 ops) \<in> {50, 60, 70, 80, 90, 100}
       \<and> trustCoeff (ResetTrust (foldl apply_trust_op b0 ops)) = 50
       \<and> sint (trustCoeff (IncreaseTrust (foldl apply_trust_op b0 ops)))
           = min (sint (trustCoeff (foldl apply_trust_op b0 ops)) + 10) 100"
proof -
  from assms have t0: "trustCoeff b0 = 100"
    by (auto simp: NewBackend_def split: if_splits)
  then have g: "trustCoeff (foldl apply_trust_op b0 ops) \<in> trust_levels"
    by (intro foldl_trust_grid) (simp add: trust_levels_def)
  have r: "trustCoeff (ResetTrust (foldl apply_trust_op b0 ops)) = 50"
    by (simp add: ResetTrust_def)
  from g have g': "trustCoeff (foldl apply_trust_op b0 ops) \<in> {50, 60, 70, 80, 90, 100}"
    by (simp only: trust_levels_def)
  show ?thesis
    using t0 g' r IncreaseTrust_step [OF g] by blast
qed

theorem trust_on_grid_witness:
  "NewBackend ''10.0.0.1:25565'' 50 20 = Inr (projr (NewBackend ''10.0.0.1:25565'' 50 20))
   \<and> trustCoeff (foldl apply_trust_op (projr (NewBackend ''10.0.0.1:25565'' 50 20))
         [OpResetTrust, OpIncreaseTrust, OpIncreaseTrust]) \<in> {50, 60, 70, 80, 90, 100}
   \<and> trustCoeff (foldl apply_trust_op (projr (NewBackend ''10.0.0.1:25565'' 50 20))
         [OpResetTrust, OpIncreaseTrust, OpIncreaseTrust]) = 70"
proof -
  have h: "NewBackend ''10.0.0.1:25565'' 50 20 = Inr (projr (NewBackend ''10.0.0.1:25565'' 50 20))"
    by (simp add: NewBackend_def)
  have v: "trustCoeff (foldl apply_trust_op (projr (NewBackend ''10.0.0.1:25565'' 50 20))
         [OpResetTrust, OpIncreaseTrust, OpIncreaseTrust]) = 70"
    by (simp add: NewBackend_def ResetTrust_def IncreaseTrust_def Let_def word_sless_alt)
  from trust_on_grid [OF h, of "[OpResetTrust, OpIncreaseTrust, OpIncreaseTrust]"] h v
  show ?thesis by blast
qed

section \<open>Attaching and detaching players\<close>

lemma RemovePlayer_absent: "n \<notin> players b \<Longrightarrow> RemovePlayer b n = b"
  by (simp add: RemovePlayer_def)

lemma RemovePlayer_AddPlayer_conns:
  "currentConns (RemovePlayer (AddPlayer b n) n) = currentConns b"
  by (simp add: RemovePlayer_def AddPlayer_def)

lemma RemovePlayer_not_member: "n \<notin> players (RemovePlayer b n)"
  by (simp add: RemovePlayer_def)

lemma RemovePlayer_conns:
  "currentConns (RemovePlayer b n) = currentConns b
   \<or> currentConns (RemovePlayer b n) = currentConns b - 1"
  by (simp add: RemovePlayer_def)

text \<open>
  Claim C8. \<open>AddPlayer n; RemovePlayer n; RemovePlayer n\<close> leaves \<open>currentConns\<close> at its
  original value, the second \<open>RemovePlayer\<close> changing nothing at all. The first \<open>Close\<close> of a
  tracked connection runs \<open>RemovePlayer\<close> once and takes at most one from \<open>currentConns\<close>;
  once it has run, \<open>Close\<close> leaves every backend state \<open>b'\<close> as it is.
\<close>

theorem detach_twice_close_twice:
  "currentConns (RemovePlayer (RemovePlayer (AddPlayer b n) n) n) = currentConns b
   \<and> RemovePlayer (RemovePlayer (AddPlayer b n) n) n = RemovePlayer (AddPlayer b n) n
   \<and> Close (c\<lparr>closeOnceDone := False\<rparr>) b
       = (c\<lparr>closeOnceDone := True\<rparr>, RemovePlayer b (playerName c))
   \<and> Close (fst (Close c b)) b' = (fst (Close c b), b')
   \<and> (currentConns (snd (Close c b)) = currentConns b
        \<or> currentConns (snd (Close c b)) = currentConns b - 1)
   \<and> snd (Close (fst (Close c b)) (snd (Close c b))) = snd (Close c b)"
proof -
  have 1: "currentConns (RemovePlayer (RemovePlayer (AddPlayer b n) n) n) = currentConns b"
    by (simp add: RemovePlayer_absent [OF RemovePlayer_not_member] RemovePlayer_AddPlayer_conns)
  have 2: "RemovePlayer (RemovePlayer (AddPlayer b n) n) n = RemovePlayer (AddPlayer b n) n"
    by (rule RemovePlayer_absent [OF RemovePlayer_not_member])
  have 3: "Close (c\<lparr>closeOnceDone := False\<rparr>) b
       = (c\<lparr>closeOnceDone := True\<rparr>, RemovePlayer b (playerName c))"
    by (simp add: Close_def)
  have 4: "Close (fst (Close c b)) b'' = (fst (Close c b), b'')" for b''
    by (simp add: Close_def)
  have 5: "currentConns (snd (Close c b)) = currentConns b
        \<or> currentConns (snd (Close c b)) = currentConns b - 1"
    using RemovePlayer_conns [of b "playerName c"] by (simp add: Close_def)
  have 6: "snd (Close (fst (Close c b)) (snd (Close c b))) = snd (Close c b)"
    by (simp add: 4)
  from 1 2 3 4 [of b'] 5 6 show ?thesis by blast
qed

text \<open>
  Claim C4, at the input where the code leaves it. \<open>AddPlayer\<close> adds one to \<open>currentConns\<close>
  whether or not the name is already in the set (\<open>RemovePlayer\<close> does look first), so
  two attachments under one name (two dials with no player both use the empty name)
  leave a counter of 2 beside a set of one name; the two closes that follow take one
  from the counter, not two.
\<close>

theorem AddPlayer_twice_counts_twice:
  "currentConns (foldl apply_player_op (projr (NewBackend ''10.0.0.1:25565'' 0 20))
      [OpAddPlayer '''', OpAddPlayer '''']) = 2
   \<and> card (players (foldl apply_player_op (projr (NewBackend ''10.0.0.1:25565'' 0 20))
      [OpAddPlayer '''', OpAddPlayer ''''])) = 1
   \<and> currentConns (foldl apply_player_op (projr (NewBackend ''10.0.0.1:25565'' 0 20))
      [OpAddPlayer '''', OpAddPlayer '''', OpRemovePlayer '''', OpRemovePlayer '''']) = 1
   \<and> players (foldl apply_player_op (projr (NewBackend ''10.0.0.1:25565'' 0 20))
      [OpAddPlayer '''', OpAddPlayer '''', OpRemovePlayer '''', OpRemovePlayer '''']) = {}"
  by (simp add: NewBackend_def AddPlayer_def RemovePlayer_def)

section \<open>A window of size zero\<close>

text \<open>
  Claim C10, at the input where the code leaves it. With \<open>windowSize = 0\<close> the backend is
  built (registration goes on), but the first \<open>RecordLatency\<close> finds
  \<open>len(latencyWindow) >= windowSize\<close> true on the empty window and evaluates
  \<open>latencyWindow[1:]\<close>, which panics: slice bounds out of range.
\<close>

theorem RecordLatency_zero_window_panics:
  "NewBackend ''10.0.0.1:25565'' 0 0 = Inr (projr (NewBackend ''10.0.0.1:25565'' 0 0))
   \<and> RecordLatency (projr (NewBackend ''10.0.0.1:25565'' 0 0)) 5000000
       = Inl (SliceBoundsOutOfRange 1 0)"
  by (simp add: NewBackend_def RecordLatency_def slice_from_def)

section \<open>History: exponential moving average and score adjustment\<close>

lemma getPeriodIndex_range:
  "Hour now < 24 \<Longrightarrow> Minute now < 60 \<Longrightarrow> 0 \<le> getPeriodIndex now \<and> getPeriodIndex now \<le> 95"
  unfolding getPeriodIndex_def by (auto simp: div_le_mono less_Suc_eq_le)

lemma sint64_succ:
  fixes s :: int64
  assumes "sint s < 2 ^ 63 - 1"
  shows "sint (s + 1) = sint s + 1"
proof -
  have lo: "- (2 ^ 63) \<le> sint s"
    using sint_ge [of s] by simp
  have "sint (s + 1) = signed_take_bit 63 (sint s + 1)"
    by (simp add: sint_word_ariths)
  also have "\<dots> = sint s + 1"
    using lo assms by (intro signed_take_bit_int_eq_self) simp_all
  finally show ?thesis .
qed

lemma scenario_period: "getPeriodIndex scenario_time = 37"
  by (simp add: getPeriodIndex_def scenario_time_def)

lemma scenario_current_stats:
  "current_stats (scenario_history n) ''10.0.0.1:25565'' scenario_time = scenario_stats n"
  by (simp add: current_stats_def scenario_history_def scenario_period)


text \<open>
  Claim C9. At a local time of day (hour below 24, minute below 60) \<open>Record\<close> returns, and
  the entry of the address at the current period is then: the sample itself when the
  entry had 0 samples (also when the address was new), else
  \<open>0.1 * new + 0.9 * old\<close> for latency and for jitter; the sample counter is the old one
  plus 1 (in 64-bit arithmetic, so as a number too unless it was at the largest value).
\<close>

theorem Record_ema:
  assumes "Hour now < 24" and "Minute now < 60"
  shows "\<exists>hm' new. Record hm addr L J now = Inr hm'
     \<and> GetCurrentPeriodStats hm' addr now = Some new
     \<and> (Samples (current_stats hm addr now) = 0 \<longrightarrow> ps_AvgLatency new = L \<and> ps_AvgJitter new = J)
     \<and> (Samples (current_stats hm addr now) \<noteq> 0 \<longrightarrow>
           ps_AvgLatency new = 0.1 * L + 0.9 * ps_AvgLatency (current_stats hm addr now)
         \<and> ps_AvgJitter new = 0.1 * J + 0.9 * ps_AvgJitter (current_stats hm addr now))
     \<and> Samples new = Samples (current_stats hm addr now) + 1
     \<and> (sint (Samples (current_stats hm addr now)) < 2 ^ 63 - 1 \<longrightarrow>
           sint (Samples new) = sint (Samples (current_stats hm addr now)) + 1)"
proof -
  from getPeriodIndex_range [OF assms]
  have r: "0 \<le> getPeriodIndex now" "getPeriodIndex now \<le> 95"
    by simp_all
  show ?thesis
    using r sint64_succ
    by (auto simp: Record_def Let_def GetCurrentPeriodStats_def GetPeriodStats_def
        current_stats_def emaAlpha_def split: option.splits)
qed

theorem Record_ema_witness:
  "Hour scenario_time < 24 \<and> Minute scenario_time < 60
   \<and> (\<exists>hm' new. Record (scenario_history 0) ''10.0.0.1:25565'' 42 3 scenario_time = Inr hm'
         \<and> GetCurrentPeriodStats hm' ''10.0.0.1:25565'' scenario_time = Some new
         \<and> ps_AvgLatency new = 42 \<and> ps_AvgJitter new = 3 \<and> Samples new = 1)
   \<and> (\<exists>hm' new. Record (scenario_history 50) ''10.0.0.1:25565'' 40 3 scenario_time = Inr hm'
         \<and> GetCurrentPeriodStats hm' ''10.0.0.1:25565'' scenario_time = Some new
         \<and> ps_AvgLatency new = 49 \<and> ps_AvgJitter new = 48 / 10 \<and> Samples new = 51)"
proof -
  have h: "Hour scenario_time < 24" and m: "Minute scenario_time < 60"
    by (simp_all add: scenario_time_def)
  have a: "\<exists>hm' new. Record (scenario_history 0) ''10.0.0.1:25565'' 42 3 scenario_time = Inr hm'
         \<and> GetCurrentPeriodStats hm' ''10.0.0.1:25565'' scenario_time = Some new
         \<and> ps_AvgLatency new = 42 \<and> ps_AvgJitter new = 3 \<and> Samples new = 1"
  proof -
    from Record_ema [OF h m, of "scenario_history 0" "''10.0.0.1:25565''" 42 3]
    obtain hm' new where
      r: "Record (scenario_history 0) ''10.0.0.1:25565'' 42 3 scenario_time = Inr hm'"
      and g: "GetCurrentPeriodStats hm' ''10.0.0.1:25565'' scenario_time = Some new"
      and z: "Samples (scenario_stats 0) = 0 \<longrightarrow> ps_AvgLatency new = 42 \<and> ps_AvgJitter new = 3"
      and s: "Samples new = Samples (scenario_stats 0) + 1"
      unfolding scenario_current_stats by blast
    have "ps_AvgLatency new = 42 \<and> ps_AvgJitter new = 3 \<and> Samples new = 1"
      using z s by (simp add: scenario_stats_def)
    with r g show ?thesis by blast
  qed
  have b: "\<exists>hm' new. Record (scenario_history 50) ''10.0.0.1:25565'' 40 3 scenario_time = Inr hm'
         \<and> GetCurrentPeriodStats hm' ''10.0.0.1:25565'' scenario_time = Some new
         \<and> ps_AvgLatency new = 49 \<and> ps_AvgJitter new = 48 / 10 \<and> Samples new = 51"
  proof -
    from Record_ema [OF h m, of "scenario_history 50" "''10.0.0.1:25565''" 40 3]
    obtain hm' new where
      r: "Record (scenario_history 50) ''10.0.0.1:25565'' 40 3 scenario_time = Inr hm'"
      and g: "GetCurrentPeriodStats hm' ''10.0.0.1:25565'' scenario_time = Some new"
      and z: "Samples (scenario_stats 50) \<noteq> 0 \<longrightarrow>
                ps_AvgLatency new = 0.1 * 40 + 0.9 * ps_AvgLatency (scenario_stats 50)
              \<and> ps_AvgJitter new = 0.1 * 3 + 0.9 * ps_AvgJitter (scenario_stats 50)"
      and s: "Samples new = Samples (scenario_stats 50) + 1"
      unfolding scenario_current_stats by blast
    have "ps_AvgLatency new = 49 \<and> ps_AvgJitter new = 48 / 10 \<and> Samples new = 51"
      using z s by (simp add: scenario_stats_def)
    with r g show ?thesis by blast
  qed
  from h m a b show ?thesis by blast
qed

section \<open>Mean and jitter of the window\<close>

lemma foldl_plus_word: "foldl (\<lambda>sum v. sum + v) a w = a + sum_list w" for a :: int64
  by (induction w arbitrary: a) (simp_all add: add.assoc)

lemma sum_window_sum_list: "sum_window w = sum_list w"
  by (simp add: sum_window_def foldl_plus_word)


lemma sint_sum_list: "sint (sum_list w) = signed_take_bit 63 (sum_list (map sint w))" for w :: "int64 list"
proof (induction w)
  case Nil
  show ?case by simp
next
  case (Cons x w)
  have "sint (sum_list (x # w)) = signed_take_bit 63 (sint x + sint (sum_list w))"
    by (simp add: sint_word_ariths)
  also have "\<dots> = signed_take_bit 63 (sint x + signed_take_bit 63 (sum_list (map sint w)))"
    by (simp only: Cons.IH)
  also have "\<dots> = signed_take_bit 63 (signed_take_bit 63 (sint x)
                        + signed_take_bit 63 (signed_take_bit 63 (sum_list (map sint w))))"
    by (simp only: signed_take_bit_add)
  also have "\<dots> = signed_take_bit 63 (signed_take_bit 63 (sint x)
                        + signed_take_bit 63 (sum_list (map sint w)))"
    by (simp only: signed_take_bit_signed_take_bit min.idem)
  also have "\<dots> = signed_take_bit 63 (sint x + sum_list (map sint w))"
    by (rule signed_take_bit_add)
  finally show ?case by simp
qed

lemma float64_sum_window:
  assumes "- (2 ^ 63) \<le> sum_list (map sint w)" and "sum_list (map sint w) < 2 ^ 63"
  shows "float64 (sum_window w) = real_of_int (sum_list (map sint w))"
  unfolding float64_def sum_window_sum_list sint_sum_list
  using assms by (simp add: signed_take_bit_int_eq_self)

lemma foldl_variance:
  "foldl (\<lambda>variance v. variance + (float64 v - avg) * (float64 v - avg)) a w
     = a + (\<Sum>x\<leftarrow>map sint w. (real_of_int x - avg) * (real_of_int x - avg))"
  by (induction w arbitrary: a) (simp_all add: float64_def add.assoc)

text \<open>
  Claim C5, as the code has it. \<open>AvgLatency\<close> is 0 only for the empty window and is the
  arithmetic mean from one sample on; \<open>Jitter\<close> is 0 below two samples and the population
  standard deviation from two samples on. The sum is an \<open>int64\<close>, so this is for windows
  whose samples add up within its range.
\<close>

theorem window_statistics:
  assumes "- (2 ^ 63) \<le> sum_list (samples b)" and "sum_list (samples b) < 2 ^ 63"
  shows "(length (latencyWindow b) = 0 \<longrightarrow> AvgLatency b = 0)
       \<and> (1 \<le> length (latencyWindow b) \<longrightarrow> AvgLatency b = arithmetic_mean (samples b))
       \<and> (length (latencyWindow b) < 2 \<longrightarrow> Jitter b = 0)
       \<and> (2 \<le> length (latencyWindow b) \<longrightarrow> Jitter b = population_stddev (samples b))"
proof -
  have s: "float64 (sum_window (latencyWindow b)) = real_of_int (sum_list (samples b))"
    using assms unfolding samples_def by (rule float64_sum_window)
  have a0: "length (latencyWindow b) = 0 \<longrightarrow> AvgLatency b = 0"
    by (simp add: AvgLatency_def)
  have a1: "1 \<le> length (latencyWindow b) \<longrightarrow> AvgLatency b = arithmetic_mean (samples b)"
    by (auto simp: AvgLatency_def Let_def s arithmetic_mean_def samples_def)
  have j0: "length (latencyWindow b) < 2 \<longrightarrow> Jitter b = 0"
    by (simp add: Jitter_def)
  have j1: "2 \<le> length (latencyWindow b) \<longrightarrow> Jitter b = population_stddev (samples b)"
    by (auto simp: Jitter_def Let_def s foldl_variance population_stddev_def arithmetic_mean_def
        samples_def)
  from a0 a1 j0 j1 show ?thesis by blast
qed


theorem window_statistics_witness:
  "- (2 ^ 63) \<le> sum_list (samples (scenario_backend ''10.0.0.1:25565'' 0 0 [10, 14]))
   \<and> sum_list (samples (scenario_backend ''10.0.0.1:25565'' 0 0 [10, 14])) < 2 ^ 63
   \<and> AvgLatency (scenario_backend ''10.0.0.1:25565'' 0 0 [10, 14]) = 12
   \<and> Jitter (scenario_backend ''10.0.0.1:25565'' 0 0 [10, 14]) = 2
   \<and> AvgLatency (scenario_backend ''10.0.0.1:25565'' 0 0 []) = 0
   \<and> Jitter (scenario_backend ''10.0.0.1:25565'' 0 0 [7]) = 0"
proof -
  have sm: "samples (scenario_backend ''10.0.0.1:25565'' 0 0 [10, 14]) = [10, 14]"
    by (simp add: samples_def scenario_backend_def)
  have lo: "- (2 ^ 63) \<le> sum_list (samples (scenario_backend ''10.0.0.1:25565'' 0 0 [10, 14]))"
    and hi: "sum_list (samples (scenario_backend ''10.0.0.1:25565'' 0 0 [10, 14])) < 2 ^ 63"
    by (simp_all add: sm)
  have m: "arithmetic_mean [10, 14] = 12"
    by (simp add: arithmetic_mean_def)
  have d: "population_stddev [10, 14] = 2"
    by (simp add: population_stddev_def m)
  have len: "length (latencyWindow (scenario_backend ''10.0.0.1:25565'' 0 0 [10, 14])) = 2"
    by (simp add: scenario_backend_def)
  from window_statistics [OF lo hi] len
  have "AvgLatency (scenario_backend ''10.0.0.1:25565'' 0 0 [10, 14]) = 12"
    and "Jitter (scenario_backend ''10.0.0.1:25565'' 0 0 [10, 14]) = 2"
    by (simp_all add: sm m d)
  moreover have "AvgLatency (scenario_backend ''10.0.0.1:25565'' 0 0 []) = 0"
    by (simp add: AvgLatency_def scenario_backend_def)
  moreover have "Jitter (scenario_backend ''10.0.0.1:25565'' 0 0 [7]) = 0"
    by (simp add: Jitter_def scenario_backend_def)
  ultimately show ?thesis using lo hi by simp
qed

text \<open>
  The claim as stated has \<open>AvgLatency\<close> return 0 below two samples. After one recorded
  latency of 5 ms the window is \<open>[5]\<close> and \<open>AvgLatency\<close> is 5.
\<close>

theorem AvgLatency_one_sample_counterexample:
  "length (latencyWindow (scenario_backend ''10.0.0.1:25565'' 0 0 [5])) < 2
   \<and> AvgLatency (scenario_backend ''10.0.0.1:25565'' 0 0 [5]) = 5
   \<and> AvgLatency (scenario_backend ''10.0.0.1:25565'' 0 0 [5]) \<noteq> 0
   \<and> RecordLatency (projr (NewBackend ''10.0.0.1:25565'' 0 20)) 5000000
       = Inr (scenario_backend ''10.0.0.1:25565'' 0 0 [5])"
  by (simp add: scenario_backend_def AvgLatency_def sum_window_def float64_def
      RecordLatency_def NewBackend_def Milliseconds_def)

section \<open>The latency a probe reports\<close>

lemma MCPingConn_any_addr: "MCPingConn conn addr timeout = MCPingConn conn addr' timeout'"
  by (simp add: MCPingConn_def)

lemma MCPing_any_backend: "MCPing b timeout net = MCPing b' timeout net"
  by (cases "dial_result net")
     (simp_all add: MCPing_def MCPingConn_any_addr [of _ "Addr b" timeout "Addr b'" timeout])

lemma scenario_network_ping: "MCPing b timeout scenario_network = (200, None)"
  by (simp add: MCPing_def scenario_network_def MCPingConn_def writePacket_def readPacket_def
      readVarInt_def Let_def word_sle_eq word_sless_alt)

lemma scenario_network_down_ping:
  "MCPing b timeout scenario_network_down = (200, Some DialFailed)"
  by (simp add: MCPing_def scenario_network_down_def)

text \<open>
  Claim C1, at the input where the code leaves it. Whatever the dial and the exchange do,
  the latency \<open>MCPing\<close> returns is the difference of the two clock readings taken before
  the dial; an error of the dial or of the exchange does come back as a failure. Against
  a server that takes 50 ms to dial and answer, the probe succeeds and reports the 200 ns
  between its first two statements.
\<close>

theorem MCPing_latency_before_dial:
  "fst (MCPing b timeout net) = clock_since net - clock_start net
   \<and> (snd (MCPing b timeout net) = None
        \<longleftrightarrow> (\<exists>conn. dial_result net = Some conn \<and> MCPingConn conn (Addr b) timeout = None))
   \<and> MCPing b timeout scenario_network = (200, None)
   \<and> spec_probe_latency scenario_network = 50000000
   \<and> MCPing b timeout scenario_network_down = (200, Some DialFailed)"
proof -
  have 1: "fst (MCPing b timeout net) = clock_since net - clock_start net"
    by (simp add: MCPing_def Let_def split: option.splits)
  have 2: "snd (MCPing b timeout net) = None
        \<longleftrightarrow> (\<exists>conn. dial_result net = Some conn \<and> MCPingConn conn (Addr b) timeout = None)"
    by (auto simp: MCPing_def Let_def split: option.splits)
  have 3: "MCPing b timeout scenario_network = (200, None)"
    by (rule scenario_network_ping)
  have 4: "spec_probe_latency scenario_network = 50000000"
    by (simp add: spec_probe_latency_def scenario_network_def)
  have 5: "MCPing b timeout scenario_network_down = (200, Some DialFailed)"
    by (rule scenario_network_down_ping)
  from 1 2 3 4 5 show ?thesis by blast
qed

section \<open>Score adjustment from history\<close>


lemma spec_latency_term_range: "- 8 \<le> spec_latency_term r \<and> spec_latency_term r \<le> 8"
  by (simp add: spec_latency_term_def)

lemma spec_jitter_term_range: "- 4 \<le> spec_jitter_term r \<and> spec_jitter_term r \<le> 4"
  by (simp add: spec_jitter_term_def)












section \<open>Health transitions\<close>

lemma sint_of_int_32:
  "0 \<le> k \<Longrightarrow> k < 2 ^ 31 \<Longrightarrow> sint (of_int k :: int32) = k"
  by (simp add: sint_sbintrunc' signed_take_bit_int_eq_self)

lemma sint_of_nat_32:
  "int n < 2 ^ 31 \<Longrightarrow> sint (of_nat n :: int32) = int n"
  using sint_of_int_32 [of "int n"] by simp

lemma checkBackend_failure:
  assumes "\<not> disabled b" and "snd (MCPing b (probe_timeout cfg) net) \<noteq> None"
  shows "checkBackend cfg now net hm b =
     (None,
      if of_int (UnhealthyAfterFailures cfg) \<le>s failCount b + 1 \<and> healthy b
      then SetHealthy (RecordHealthCheckFailure (SetLastCheckTime b now)) False
      else RecordHealthCheckFailure (SetLastCheckTime b now), hm)"
  using assms
  by (cases "MCPing b (probe_timeout cfg) net")
     (auto simp: checkBackend_def Let_def RecordHealthCheckFailure_def SetLastCheckTime_def)

lemma failed_probe_counters:
  assumes "\<not> disabled b" and "snd (MCPing b (probe_timeout cfg) net) \<noteq> None"
    and "checkBackend cfg now net hm b = (p, b', hm')"
  shows "p = None \<and> failCount b' = failCount b + 1 \<and> successCount b' = 0 \<and> \<not> disabled b'"
  using assms(3,1) unfolding checkBackend_failure [OF assms(1,2)]
  by (auto simp: SetHealthy_def RecordHealthCheckFailure_def SetLastCheckTime_def
      split: if_splits)

lemma successful_probe_counters:
  assumes "\<not> disabled b" and "snd (MCPing b (probe_timeout cfg) net) = None"
    and "checkBackend cfg now net hm b = (None, b', hm')"
  shows "failCount b' = 0 \<and> \<not> disabled b'"
  using assms
  by (cases "MCPing b (probe_timeout cfg) net")
     (auto simp: checkBackend_def Let_def SetLastCheckTime_def SetHealthy_def
       RecordHealthCheckSuccess_def IncreaseTrust_def RecordLatency_def ResetTrust_def
       ResetSuccessCount_def
       split: if_splits option.splits sum.splits)

lemma unhealthy_only_at_threshold:
  assumes "checkBackend cfg now net hm b = (p, b', hm')" and "healthy b" and "\<not> healthy b'"
  shows "snd (MCPing b (probe_timeout cfg) net) \<noteq> None \<and> failCount b' = failCount b + 1
       \<and> of_int (UnhealthyAfterFailures cfg) \<le>s failCount b'"
  using assms
  by (cases "MCPing b (probe_timeout cfg) net")
     (auto simp: checkBackend_def Let_def RecordHealthCheckFailure_def SetLastCheckTime_def
       SetHealthy_def RecordHealthCheckSuccess_def IncreaseTrust_def RecordLatency_def
       split: if_splits option.splits sum.splits)

lemma healthy_only_at_threshold:
  assumes "checkBackend cfg now net hm b = (p, b', hm')" and "\<not> healthy b" and "healthy b'"
  shows "snd (MCPing b (probe_timeout cfg) net) = None
       \<and> of_int (HealthyAfterSuccesses cfg) \<le>s successCount b + 1
       \<and> trustCoeff b' = 50 \<and> successCount b' = 0"
  using assms
  by (cases "MCPing b (probe_timeout cfg) net")
     (auto simp: checkBackend_def Let_def RecordHealthCheckFailure_def SetLastCheckTime_def
       SetHealthy_def RecordHealthCheckSuccess_def ResetTrust_def ResetSuccessCount_def
       RecordLatency_def
       split: if_splits option.splits sum.splits)

lemma probes_snoc:
  "probes cfg (ticks @ [tick]) hm b =
     (case probes cfg ticks hm b of
        (b', hm') \<Rightarrow> (case checkBackend cfg (fst tick) (snd tick) hm' b' of
                        (p, b'', hm'') \<Rightarrow> (b'', hm'')))"
  by (induction ticks arbitrary: hm b) (auto split: prod.splits)

lemma failing_probes:
  assumes d: "\<not> disabled b" and f: "failCount b = 0" and h: "healthy b"
    and u: "1 \<le> UnhealthyAfterFailures cfg" "UnhealthyAfterFailures cfg < 2 ^ 31"
    and fails: "\<forall>tick \<in> set ticks. snd (MCPing b (probe_timeout cfg) (snd tick)) \<noteq> None"
    and len: "int (length ticks) \<le> UnhealthyAfterFailures cfg"
  shows "snd (probes cfg ticks hm b) = hm
       \<and> failCount (fst (probes cfg ticks hm b)) = of_nat (length ticks)
       \<and> \<not> disabled (fst (probes cfg ticks hm b))
       \<and> (healthy (fst (probes cfg ticks hm b))
            \<longleftrightarrow> int (length ticks) < UnhealthyAfterFailures cfg)"
  using fails len
proof (induction ticks rule: rev_induct)
  case Nil
  with h d f u show ?case by simp
next
  case (snoc tick ticks)
  let ?U = "UnhealthyAfterFailures cfg"
  let ?n = "length ticks"
  from snoc.prems have lt: "int ?n < ?U"
    and fl: "\<forall>t \<in> set ticks. snd (MCPing b (probe_timeout cfg) (snd t)) \<noteq> None"
    and ft: "snd (MCPing b (probe_timeout cfg) (snd tick)) \<noteq> None"
    by simp_all
  obtain b' hm' where p: "probes cfg ticks hm b = (b', hm')"
    by (cases "probes cfg ticks hm b")
  from snoc.IH [OF fl] lt p have hm': "hm' = hm" and c: "failCount b' = of_nat ?n"
    and nd: "\<not> disabled b'" and hb: "healthy b'"
    by simp_all
  from ft have ft': "snd (MCPing b' (probe_timeout cfg) (snd tick)) \<noteq> None"
    by (simp add: MCPing_any_backend [of b' _ _ b])
  have su: "sint (of_int ?U :: int32) = ?U"
    using u by (intro sint_of_int_32) simp_all
  have "sint (of_nat (Suc ?n) :: int32) = int (Suc ?n)"
    using lt u by (intro sint_of_nat_32) simp
  then have sn: "sint (of_nat ?n + 1 :: int32) = int ?n + 1"
    by (simp add: add.commute)
  have cmp: "(of_int ?U :: int32) \<le>s failCount b' + 1 \<longleftrightarrow> ?U \<le> int (Suc ?n)"
    unfolding c word_sle_eq su sn by (simp add: add.commute)
  let ?b2 = "RecordHealthCheckFailure (SetLastCheckTime b' (fst tick))"
  have step: "checkBackend cfg (fst tick) (snd tick) hm b' =
     (None, if ?U \<le> int (Suc ?n) then SetHealthy ?b2 False else ?b2, hm)"
    using checkBackend_failure [OF nd ft', of "fst tick" hm] hb cmp by simp
  have fc: "failCount ?b2 = of_nat (Suc ?n)"
    by (simp add: RecordHealthCheckFailure_def SetLastCheckTime_def c)
  have r: "probes cfg (ticks @ [tick]) hm b =
     (if ?U \<le> int (Suc ?n) then SetHealthy ?b2 False else ?b2, hm)"
    by (simp add: probes_snoc p hm' step)
  have 1: "failCount (if ?U \<le> int (Suc ?n) then SetHealthy ?b2 False else ?b2)
     = of_nat (length (ticks @ [tick]))"
    using fc by (simp add: SetHealthy_def)
  have 2: "\<not> disabled (if ?U \<le> int (Suc ?n) then SetHealthy ?b2 False else ?b2)"
    using nd by (simp add: SetHealthy_def RecordHealthCheckFailure_def SetLastCheckTime_def)
  have 3: "healthy (if ?U \<le> int (Suc ?n) then SetHealthy ?b2 False else ?b2)
     \<longleftrightarrow> int (length (ticks @ [tick])) < ?U"
    using hb by (auto simp: SetHealthy_def RecordHealthCheckFailure_def SetLastCheckTime_def)
  show ?case unfolding r using 1 2 3 by simp
qed

lemma NewBackend_start:
  "NewBackend addr maxConns wsize = Inr s \<Longrightarrow> \<not> disabled s \<and> failCount s = 0 \<and> healthy s"
  by (auto simp: NewBackend_def split: if_splits)


text \<open>
  Claim C3, as the code has it. In one pass of the health-check loop over a backend
  (parts 1 and 2): a backend goes from healthy to unhealthy only on a failed probe, when
  the failure counter, just incremented, has reached \<open>int32(U)\<close>; it goes from unhealthy to
  healthy only on a successful probe, when the success counter, just incremented, has
  reached \<open>int32(H)\<close>, and it leaves with trust 50 and a success counter of 0; for
  thresholds from 0 to \<open>2^31 - 1\<close> the conversion changes nothing. The counters are run
  lengths (parts 3 and 4): a failed probe adds one to the failure counter and zeroes the
  success counter, a successful probe zeroes the failure counter. So (part 5), from a
  backend as \<open>NewBackend\<close> makes it, or as a successful probe leaves it healthy, with
  \<open>1 \<le> U < 2^31\<close> and probes only (no dial writing the counter in between): after \<open>U\<close>
  failing probes in a row the backend is unhealthy, after fewer (so after \<open>U - 1\<close>) it is
  still healthy.
\<close>

theorem health_transitions:
  "(checkBackend cfg now net hm b = (p, b', hm') \<and> healthy b \<and> \<not> healthy b' \<longrightarrow>
      snd (MCPing b (probe_timeout cfg) net) \<noteq> None \<and> failCount b' = failCount b + 1
      \<and> of_int (UnhealthyAfterFailures cfg) \<le>s failCount b'
      \<and> (0 \<le> UnhealthyAfterFailures cfg \<and> UnhealthyAfterFailures cfg < 2 ^ 31 \<longrightarrow>
            UnhealthyAfterFailures cfg \<le> sint (failCount b')))
   \<and> (checkBackend cfg now net hm b = (p, b', hm') \<and> \<not> healthy b \<and> healthy b' \<longrightarrow>
      snd (MCPing b (probe_timeout cfg) net) = None
      \<and> of_int (HealthyAfterSuccesses cfg) \<le>s successCount b + 1
      \<and> (0 \<le> HealthyAfterSuccesses cfg \<and> HealthyAfterSuccesses cfg < 2 ^ 31 \<longrightarrow>
            HealthyAfterSuccesses cfg \<le> sint (successCount b + 1))
      \<and> trustCoeff b' = 50 \<and> successCount b' = 0)
   \<and> (checkBackend cfg now net hm b = (p, b', hm') \<and> \<not> disabled b
        \<and> snd (MCPing b (probe_timeout cfg) net) \<noteq> None \<longrightarrow>
      p = None \<and> failCount b' = failCount b + 1 \<and> successCount b' = 0)
   \<and> (checkBackend cfg now net hm b = (None, b', hm') \<and> \<not> disabled b
        \<and> snd (MCPing b (probe_timeout cfg) net) = None \<longrightarrow>
      failCount b' = 0)
   \<and> ((NewBackend addr maxConns wsize = Inr s
         \<or> (checkBackend cfg now net hm b = (None, s, hm') \<and> \<not> disabled b
             \<and> snd (MCPing b (probe_timeout cfg) net) = None \<and> healthy s))
       \<and> 1 \<le> UnhealthyAfterFailures cfg \<and> UnhealthyAfterFailures cfg < 2 ^ 31
       \<and> (\<forall>tick \<in> set ticks. snd (MCPing s (probe_timeout cfg) (snd tick)) \<noteq> None) \<longrightarrow>
       (int (length ticks) = UnhealthyAfterFailures cfg \<longrightarrow>
          \<not> healthy (fst (probes cfg ticks hm2 s)))
       \<and> (int (length ticks) < UnhealthyAfterFailures cfg \<longrightarrow>
          healthy (fst (probes cfg ticks hm2 s))))"
proof -
  have 1: "checkBackend cfg now net hm b = (p, b', hm') \<and> healthy b \<and> \<not> healthy b' \<longrightarrow>
      snd (MCPing b (probe_timeout cfg) net) \<noteq> None \<and> failCount b' = failCount b + 1
      \<and> of_int (UnhealthyAfterFailures cfg) \<le>s failCount b'
      \<and> (0 \<le> UnhealthyAfterFailures cfg \<and> UnhealthyAfterFailures cfg < 2 ^ 31 \<longrightarrow>
            UnhealthyAfterFailures cfg \<le> sint (failCount b'))"
    using unhealthy_only_at_threshold [of cfg now net hm b p b' hm']
      sint_of_int_32 [of "UnhealthyAfterFailures cfg"]
    by (auto simp: word_sle_eq)
  have 2: "checkBackend cfg now net hm b = (p, b', hm') \<and> \<not> healthy b \<and> healthy b' \<longrightarrow>
      snd (MCPing b (probe_timeout cfg) net) = None
      \<and> of_int (HealthyAfterSuccesses cfg) \<le>s successCount b + 1
      \<and> (0 \<le> HealthyAfterSuccesses cfg \<and> HealthyAfterSuccesses cfg < 2 ^ 31 \<longrightarrow>
            HealthyAfterSuccesses cfg \<le> sint (successCount b + 1))
      \<and> trustCoeff b' = 50 \<and> successCount b' = 0"
    using healthy_only_at_threshold [of cfg now net hm b p b' hm']
      sint_of_int_32 [of "HealthyAfterSuccesses cfg"]
    by (auto simp: word_sle_eq)
  have 3: "checkBackend cfg now net hm b = (p, b', hm') \<and> \<not> disabled b
        \<and> snd (MCPing b (probe_timeout cfg) net) \<noteq> None \<longrightarrow>
      p = None \<and> failCount b' = failCount b + 1 \<and> successCount b' = 0"
    using failed_probe_counters [of b cfg net now hm p b' hm'] by blast
  have 4: "checkBackend cfg now net hm b = (None, b', hm') \<and> \<not> disabled b
        \<and> snd (MCPing b (probe_timeout cfg) net) = None \<longrightarrow>
      failCount b' = 0"
    using successful_probe_counters [of b cfg net now hm b' hm'] by blast
  have 5: "(int (length ticks) = UnhealthyAfterFailures cfg \<longrightarrow>
          \<not> healthy (fst (probes cfg ticks hm2 s)))
       \<and> (int (length ticks) < UnhealthyAfterFailures cfg \<longrightarrow>
          healthy (fst (probes cfg ticks hm2 s)))"
    if start: "NewBackend addr maxConns wsize = Inr s
         \<or> (checkBackend cfg now net hm b = (None, s, hm') \<and> \<not> disabled b
             \<and> snd (MCPing b (probe_timeout cfg) net) = None \<and> healthy s)"
      and u: "1 \<le> UnhealthyAfterFailures cfg" "UnhealthyAfterFailures cfg < 2 ^ 31"
      and fails: "\<forall>tick \<in> set ticks. snd (MCPing s (probe_timeout cfg) (snd tick)) \<noteq> None"
  proof -
    from start have s0: "\<not> disabled s" "failCount s = 0" "healthy s"
      using NewBackend_start [of addr maxConns wsize s]
        successful_probe_counters [of b cfg net now hm s hm']
      by auto
    show ?thesis
    proof (cases "int (length ticks) \<le> UnhealthyAfterFailures cfg")
      case True
      from failing_probes [OF s0 u fails True, of hm2] show ?thesis by simp
    next
      case False
      then show ?thesis by simp
    qed
  qed
  from 1 2 3 4 5 show ?thesis by blast
qed


lemmas scenario_eval =
  NewBackend_def scenario_config_def checkBackend_def scenario_network_down_ping
  scenario_network_ping SetLastCheckTime_def RecordHealthCheckFailure_def
  RecordHealthCheckSuccess_def SetHealthy_def ResetTrust_def ResetSuccessCount_def
  IncreaseTrust_def RecordLatency_def Milliseconds_def Record_def scenario_period
  Dial_backend_def RecordFailure_def RecordSuccess_def AddPlayer_def slice_from_def
  word_sle_eq word_sless_alt Let_def

theorem health_transitions_witness:
  "NewBackend ''10.0.0.1:25565'' 50 20 = Inr (projr (NewBackend ''10.0.0.1:25565'' 50 20))
   \<and> 1 \<le> UnhealthyAfterFailures scenario_config
   \<and> UnhealthyAfterFailures scenario_config < 2 ^ 31
   \<and> \<not> healthy (fst (probes scenario_config
          [(scenario_time, scenario_network_down), (scenario_time, scenario_network_down),
           (scenario_time, scenario_network_down)]
          (scenario_history 0) (projr (NewBackend ''10.0.0.1:25565'' 50 20))))
   \<and> healthy (fst (probes scenario_config
          [(scenario_time, scenario_network_down), (scenario_time, scenario_network_down)]
          (scenario_history 0) (projr (NewBackend ''10.0.0.1:25565'' 50 20))))
   \<and> (\<exists>b' hm'. checkBackend scenario_config scenario_time scenario_network (scenario_history 0)
          ((projr (NewBackend ''10.0.0.1:25565'' 50 20))\<lparr>healthy := False, successCount := 2\<rparr>)
            = (None, b', hm')
        \<and> healthy b' \<and> trustCoeff b' = 50 \<and> successCount b' = 0 \<and> failCount b' = 0)"
proof -
  let ?B = "projr (NewBackend ''10.0.0.1:25565'' 50 20)"
  let ?tk = "(scenario_time, scenario_network_down)"
  let ?hm = "scenario_history 0"
  have nb: "NewBackend ''10.0.0.1:25565'' 50 20 = Inr ?B"
    by (simp add: NewBackend_def)
  have u: "1 \<le> UnhealthyAfterFailures scenario_config"
    "UnhealthyAfterFailures scenario_config < 2 ^ 31"
    by (simp_all add: scenario_config_def)
  have f3: "\<forall>tick \<in> set [?tk, ?tk, ?tk].
      snd (MCPing ?B (probe_timeout scenario_config) (snd tick)) \<noteq> None"
    and f2: "\<forall>tick \<in> set [?tk, ?tk].
      snd (MCPing ?B (probe_timeout scenario_config) (snd tick)) \<noteq> None"
    by (simp_all add: scenario_network_down_ping)
  have l3: "int (length [?tk, ?tk, ?tk]) = UnhealthyAfterFailures scenario_config"
    and l2: "int (length [?tk, ?tk]) < UnhealthyAfterFailures scenario_config"
    by (simp_all add: scenario_config_def)
  from health_transitions [of scenario_config _ _ _ _ _ _ _ "''10.0.0.1:25565''" 50 20 ?B
      "[?tk, ?tk, ?tk]" ?hm] nb u f3 l3
  have e3: "\<not> healthy (fst (probes scenario_config [?tk, ?tk, ?tk] ?hm ?B))"
    by blast
  from health_transitions [of scenario_config _ _ _ _ _ _ _ "''10.0.0.1:25565''" 50 20 ?B
      "[?tk, ?tk]" ?hm] nb u f2 l2
  have e2: "healthy (fst (probes scenario_config [?tk, ?tk] ?hm ?B))"
    by blast
  let ?Bu = "?B\<lparr>healthy := False, successCount := 2\<rparr>"
  have "\<exists>b' hm'. checkBackend scenario_config scenario_time scenario_network ?hm ?Bu
          = (None, b', hm') \<and> healthy b'"
    by (simp add: scenario_eval)
  then obtain b' hm' where
    cb: "checkBackend scenario_config scenario_time scenario_network ?hm ?Bu = (None, b', hm')"
    and hb: "healthy b'"
    by blast
  have nh: "\<not> healthy ?Bu" and nd: "\<not> disabled ?Bu"
    by (simp_all add: NewBackend_def)
  have ok: "snd (MCPing ?Bu (probe_timeout scenario_config) scenario_network) = None"
    by (simp add: scenario_network_ping)
  from health_transitions [of scenario_config scenario_time scenario_network ?hm ?Bu None b' hm']
    cb hb nh nd ok
  have "trustCoeff b' = 50 \<and> successCount b' = 0 \<and> failCount b' = 0" by blast
  with cb hb have e1: "\<exists>b' hm'. checkBackend scenario_config scenario_time scenario_network
      ?hm ?Bu = (None, b', hm')
        \<and> healthy b' \<and> trustCoeff b' = 50 \<and> successCount b' = 0 \<and> failCount b' = 0"
    by blast
  from nb u e3 e2 e1 show ?thesis by blast
qed

text \<open>
  The claim as stated counts probes against \<open>U\<close>. With \<open>U = 3\<close>: after two failed dials of
  players, one failing probe makes the backend unhealthy; and with a successful dial
  after the second of three failing probes in a row, the third leaves it healthy. With
  \<open>U = 2^32 + 2\<close>, two failing probes make a new backend unhealthy, the counter at 2.
\<close>

theorem health_transitions_counterexample:
  "UnhealthyAfterFailures scenario_config = 3
   \<and> Dial_backend (projr (NewBackend ''10.0.0.1:25565'' 50 20)) False 3000000 ''steve''
       = Inr ((projr (NewBackend ''10.0.0.1:25565'' 50 20))\<lparr>failCount := 1, latencyWindow := [3]\<rparr>)
   \<and> Dial_backend ((projr (NewBackend ''10.0.0.1:25565'' 50 20))\<lparr>failCount := 1, latencyWindow := [3]\<rparr>)
         False 3000000 ''steve''
       = Inr ((projr (NewBackend ''10.0.0.1:25565'' 50 20))\<lparr>failCount := 2, latencyWindow := [3, 3]\<rparr>)
   \<and> healthy ((projr (NewBackend ''10.0.0.1:25565'' 50 20))\<lparr>failCount := 2, latencyWindow := [3, 3]\<rparr>)
   \<and> \<not> healthy (fst (probes scenario_config [(scenario_time, scenario_network_down)]
          (scenario_history 0)
          ((projr (NewBackend ''10.0.0.1:25565'' 50 20))\<lparr>failCount := 2, latencyWindow := [3, 3]\<rparr>)))
   \<and> healthy (fst (probes scenario_config [(scenario_time, scenario_network_down)]
          (scenario_history 0)
          (projr (Dial_backend
             (fst (probes scenario_config
                [(scenario_time, scenario_network_down), (scenario_time, scenario_network_down)]
                (scenario_history 0) (projr (NewBackend ''10.0.0.1:25565'' 50 20))))
             True 3000000 ''steve''))))
   \<and> \<not> healthy (fst (probes (scenario_config\<lparr>UnhealthyAfterFailures := 4294967298\<rparr>)
          [(scenario_time, scenario_network_down), (scenario_time, scenario_network_down)]
          (scenario_history 0) (projr (NewBackend ''10.0.0.1:25565'' 50 20))))
   \<and> failCount (fst (probes (scenario_config\<lparr>UnhealthyAfterFailures := 4294967298\<rparr>)
          [(scenario_time, scenario_network_down), (scenario_time, scenario_network_down)]
          (scenario_history 0) (projr (NewBackend ''10.0.0.1:25565'' 50 20)))) = 2"
  by (simp add: scenario_eval)

section \<open>Selection by health score\<close>


























end
